theory Spec2Isabelle
  imports Complex_Main "HOL-Library.Word"
begin

section \<open>Sample conversion\<close>

text \<open>
  The capture worklet (\<open>RawAudioProcessor.processAndSendBuffer\<close>) turns the samples of a
  \<open>Float32Array\<close> into an \<open>Int16Array\<close>; the playback worklet
  (\<open>AudioConcatProcessor.processAudioOutput\<close>) divides an \<open>Int16Array\<close> element by 32768.

  A sample is a real number. Every \<open>Float32Array\<close> element other than NaN and the
  infinities is a dyadic rational with a 24-bit significand; its products with 32767 and
  32768 and the quotient of a 16-bit integer by 32768 are exact in the double arithmetic
  JavaScript computes with, so on such samples the real-number model below computes what
  the code computes.

  Storing a number into an \<open>Int16Array\<close> applies \<open>ToInt16\<close>: the fraction is cut off
  (towards zero) and the integer is reduced modulo \<open>2 ^ 16\<close> into the signed range.
  The reduction is the one of \<open>16 word\<close>, read back with \<open>sint\<close>.
\<close>

type_synonym byte = "8 word"
type_synonym int16 = "16 word"

definition truncation :: "real \<Rightarrow> int" where
  "truncation r = (if r < 0 then \<lceil>r\<rceil> else \<lfloor>r\<rfloor>)"

definition toInt16 :: "real \<Rightarrow> int16" where
  "toInt16 r = word_of_int (truncation r)"

text \<open>The body of the loop of \<open>processAndSendBuffer\<close>, for one element.\<close>

definition floatToPcm16 :: "real \<Rightarrow> int16" where
  "floatToPcm16 x =
     (let sample = max (- 1) (min 1 x)
      in toInt16 (if sample < 0 then sample * 32768 else sample * 32767))"

text \<open>
  \<open>processAndSendBuffer(maxVolume)\<close>: converts the whole accumulated buffer, posts
  \<open>[pcm16Data, maxVolume]\<close> and clears the buffer. The result is the message posted and
  the new buffer.
\<close>

definition processAndSendBuffer :: "real list \<Rightarrow> real \<Rightarrow> (int16 list \<times> real) \<times> real list" where
  "processAndSendBuffer audioBuffer maxVolume = ((map floatToPcm16 audioBuffer, maxVolume), [])"

text \<open>\<open>currentAudioBuffer[currentPosition] / 32768\<close> for an element that exists.\<close>

definition pcm16ToFloat :: "int16 \<Rightarrow> real" where
  "pcm16ToFloat w = real_of_int (sint w) / 32768"

section \<open>The playback worklet\<close>

text \<open>
  \<open>AudioConcatProcessor\<close>: a queue of \<open>Int16Array\<close> chunks, the chunk being played and
  the position in it, and two flags. \<open>currentAudioBuffer = None\<close> is JavaScript's
  \<open>null\<close>.
\<close>

record AudioConcatProcessor =
  audioBuffers :: "int16 list list"
  currentPosition :: nat
  currentAudioBuffer :: "int16 list option"
  isInterrupted :: bool
  isFinished :: bool

definition newAudioConcatProcessor :: AudioConcatProcessor where
  "newAudioConcatProcessor =
     \<lparr>audioBuffers = [], currentPosition = 0, currentAudioBuffer = None,
      isInterrupted = False, isFinished = False\<rparr>"

text \<open>
  \<open>new Int16Array(buffer)\<close> views an \<open>ArrayBuffer\<close> as 16-bit integers in the byte order
  of the platform, little-endian on every platform browsers run on. It throws a
  \<open>RangeError\<close> (here \<open>None\<close>) when the byte length is odd.
\<close>

fun int16Array :: "byte list \<Rightarrow> int16 list option" where
  "int16Array [] = Some []"
| "int16Array [b] = None"
| "int16Array (lo # hi # bs) = map_option ((#) (word_cat hi lo)) (int16Array bs)"

text \<open>
  \<open>handleNewBuffer(buffer)\<close>: the flag is cleared before the view is made, so a buffer
  of odd length clears the flag and queues nothing.
\<close>

definition handleNewBuffer :: "AudioConcatProcessor \<Rightarrow> byte list \<Rightarrow> AudioConcatProcessor" where
  "handleNewBuffer p buffer =
     (let p1 = p\<lparr>isInterrupted := False\<rparr>
      in case int16Array buffer of
           None \<Rightarrow> p1
         | Some chunk \<Rightarrow> p1\<lparr>audioBuffers := audioBuffers p1 @ [chunk]\<rparr>)"

definition handleInterruption_worklet :: "AudioConcatProcessor \<Rightarrow> AudioConcatProcessor" where
  "handleInterruption_worklet p = p\<lparr>isInterrupted := True\<rparr>"

definition handleClearInterruption :: "AudioConcatProcessor \<Rightarrow> AudioConcatProcessor" where
  "handleClearInterruption p =
     (if isInterrupted p
      then p\<lparr>isInterrupted := False, audioBuffers := [], currentAudioBuffer := None\<rparr>
      else p)"

text \<open>
  The messages the main thread posts to the worklet's port, and the \<open>switch\<close> of
  \<open>port.onmessage\<close>.
\<close>

datatype port_msg = BufferMsg "byte list" | InterruptMsg | ClearInterruptedMsg

fun onmessage :: "AudioConcatProcessor \<Rightarrow> port_msg \<Rightarrow> AudioConcatProcessor" where
  "onmessage p (BufferMsg buffer) = handleNewBuffer p buffer"
| "onmessage p InterruptMsg = handleInterruption_worklet p"
| "onmessage p ClearInterruptedMsg = handleClearInterruption p"

text \<open>
  \<open>processAudioOutput(output)\<close>, by recursion on the number of output slots still to
  fill. The result is the list of samples written (the slots after a \<open>break\<close> keep what
  they held), the value of \<open>isFinished\<close> and the new state. A sample is \<open>None\<close> where the
  code reads past the end of a chunk, which only an empty chunk allows: there
  \<open>undefined / 32768\<close> is NaN.
\<close>

definition sampleAt :: "int16 list \<Rightarrow> nat \<Rightarrow> real option" where
  "sampleAt chunk pos = (if pos < length chunk then Some (pcm16ToFloat (chunk ! pos)) else None)"

fun processAudioOutput :: "nat \<Rightarrow> AudioConcatProcessor \<Rightarrow> real option list \<times> bool \<times> AudioConcatProcessor" where
  "processAudioOutput 0 p = ([], False, p)"
| "processAudioOutput (Suc n) p =
     (case (case currentAudioBuffer p of
              Some chunk \<Rightarrow> Some (chunk, p)
            | None \<Rightarrow>
                (case audioBuffers p of
                   [] \<Rightarrow> None
                 | chunk # rest \<Rightarrow>
                     Some (chunk, p\<lparr>audioBuffers := rest, currentAudioBuffer := Some chunk,
                                    currentPosition := 0\<rparr>))) of
        None \<Rightarrow> ([], True, p)
      | Some (chunk, p1) \<Rightarrow>
          (let sample = sampleAt chunk (currentPosition p1);
               p2 = p1\<lparr>currentPosition := currentPosition p1 + 1\<rparr>;
               p3 = (if currentPosition p2 \<ge> length chunk
                     then p2\<lparr>currentAudioBuffer := None\<rparr> else p2);
               (out, fin, p4) = processAudioOutput n p3
           in (sample # out, fin, p4)))"

text \<open>
  \<open>process(_, outputs)\<close>: reports a change of \<open>isFinished\<close> to the main thread, once per
  change. The second component is the message posted, if any.
\<close>

definition process :: "nat \<Rightarrow> AudioConcatProcessor \<Rightarrow> real option list \<times> bool option \<times> AudioConcatProcessor" where
  "process n p =
     (let (out, fin, p1) = processAudioOutput n p
      in if isFinished p1 \<noteq> fin then (out, Some fin, p1\<lparr>isFinished := fin\<rparr>)
         else (out, None, p1))"

section \<open>Protocol messages and observable effects\<close>

datatype mode = Listening | Speaking | Interrupted

datatype status = Connecting | Connected | Disconnecting | Disconnected

text \<open>
  An inbound text frame, as \<open>JSON.parse\<close> and the \<open>switch\<close> on \<open>data.type\<close> read it.
  \<open>NotJson\<close> is a frame on which reading the type throws (\<open>JSON.parse\<close> throws on
  it, or gives \<open>null\<close>), \<open>Untyped\<close> any other value without a truthy \<open>type\<close>. The fields are the ones the handlers read, with the types of the wire
  protocol: event ids are numbers. \<open>Interruption None\<close> is an interruption frame without
  \<open>interruption_event\<close>, the case \<open>handleInterruption\<close> tests for.
\<close>

datatype inbound =
    NotJson
  | Untyped
  | ConversationInitiationMetadata string string
  | Interruption "int option"
  | AgentResponse string
  | UserTranscript string
  | InternalTentativeAgentResponse string
  | Audio int string
  | Ping int
  | OtherType string

datatype debug = TentativeAgentResponse string | Frame inbound

datatype callback =
    OnConnect string
  | OnDisconnect
  | OnError string
  | OnDebug debug
  | OnMessage string string
  | OnStatusChange status
  | OnModeChange mode
  | OnAudioData "byte list"

datatype outbound = Pong int | UserAudioChunk string

datatype resource = AudioInput | WebSocket | AudioOutput

text \<open>
  What the manager does to the world outside its own fields, in the order it does it:
  a handler of \<open>settings\<close> is called, a frame is sent on the socket, a message is posted
  to the playback worklet, an exponential ramp of the gain towards a value is scheduled
  to end so many seconds from now, a timer is set (milliseconds), a resource is opened
  or closed.
\<close>

datatype effect =
    Call callback
  | Send outbound
  | Post port_msg
  | Ramp real real
  | SetTimeout nat
  | Open resource
  | Close resource

datatype error = DeviceError string | SocketErrorEvent | SocketCloseEvent | TypeError string

datatype 'a promise = Pending | Resolved 'a | Rejected error

section \<open>ConversationManager\<close>

text \<open>
  The fields of the class that the handlers read and write; \<open>onAudioData_given\<close> says
  whether \<open>settings.onAudioData\<close> is a function (\<open>DEFAULT_HANDLERS\<close> of the client has no
  such entry, so it is one only if the caller's config supplies it); \<open>gain_value\<close> is
  \<open>audioOutput.gainNode.gain.value\<close>, the gain applied to the samples played;
  \<open>effects\<close> is the log of effects so far, oldest first. The handlers of \<open>settings\<close> are
  taken to return normally.
\<close>

record ConversationManager =
  lastInterruptTime :: int
  conversationMode :: mode
  connectionStatus :: status
  audioVolume :: real
  onAudioData_given :: bool
  conversationId :: string
  gain_value :: real
  effects :: "effect list"

definition emit :: "ConversationManager \<Rightarrow> effect \<Rightarrow> ConversationManager" where
  "emit s e = s\<lparr>effects := effects s @ [e]\<rparr>"

definition updateConversationMode :: "ConversationManager \<Rightarrow> mode \<Rightarrow> ConversationManager" where
  "updateConversationMode s newMode =
     (if newMode \<noteq> conversationMode s
      then emit (s\<lparr>conversationMode := newMode\<rparr>) (Call (OnModeChange newMode))
      else s)"

definition updateConnectionStatus :: "ConversationManager \<Rightarrow> status \<Rightarrow> ConversationManager" where
  "updateConnectionStatus s newStatus =
     (if newStatus \<noteq> connectionStatus s
      then emit (s\<lparr>connectionStatus := newStatus\<rparr>) (Call (OnStatusChange newStatus))
      else s)"

definition handleError :: "ConversationManager \<Rightarrow> string \<Rightarrow> ConversationManager" where
  "handleError s message = emit s (Call (OnError message))"

text \<open>
  The constructor, with \<open>initializeEventListeners\<close>: the arguments are whether the
  settings hold \<open>onAudioData\<close>, the conversation id of the connection and the effects of
  \<open>startSession\<close> up to the call. A new \<open>GainNode\<close> has gain 1.
\<close>

definition initializeEventListeners :: "ConversationManager \<Rightarrow> ConversationManager" where
  "initializeEventListeners s = emit s (Call (OnConnect (conversationId s)))"

definition newConversationManager :: "bool \<Rightarrow> string \<Rightarrow> effect list \<Rightarrow> ConversationManager" where
  "newConversationManager given cid effs =
     updateConnectionStatus
       (initializeEventListeners
          \<lparr>lastInterruptTime = 0, conversationMode = Listening, connectionStatus = Connecting,
           audioVolume = 1, onAudioData_given = given, conversationId = cid,
           gain_value = 1, effects = effs\<rparr>)
       Connected"

text \<open>
  \<open>fadeOutAudio\<close> has no \<open>await\<close>: it runs to its end when called. The function passed
  to \<open>setTimeout\<close> is \<open>fadeTimeout\<close>; when it runs is up to the timer.
\<close>

definition fadeOutAudio :: "ConversationManager \<Rightarrow> ConversationManager" where
  "fadeOutAudio s =
     (let s1 = updateConversationMode s Listening;
          s2 = emit s1 (Post InterruptMsg);
          s3 = emit s2 (Ramp (1 / 10000) 2)
      in emit s3 (SetTimeout 2000))"

definition fadeTimeout :: "ConversationManager \<Rightarrow> ConversationManager" where
  "fadeTimeout s = emit (s\<lparr>gain_value := audioVolume s\<rparr>) (Post ClearInterruptedMsg)"

definition handleInterruption :: "ConversationManager \<Rightarrow> int option \<Rightarrow> ConversationManager" where
  "handleInterruption s interruption_event =
     fadeOutAudio (case interruption_event of
                     Some event_id \<Rightarrow> s\<lparr>lastInterruptTime := event_id\<rparr>
                   | None \<Rightarrow> s)"

text \<open>
  \<open>window.atob\<close> and \<open>window.btoa\<close> belong to the browser, not to this program: they
  are parameters. \<open>atob\<close> gives the decoded binary string, or \<open>None\<close> where it throws
  (\<open>InvalidCharacterError\<close>). \<open>charCodeAt\<close> of a binary string is \<open>of_char\<close>.
\<close>

definition base64ToArrayBuffer :: "(string \<Rightarrow> string option) \<Rightarrow> string \<Rightarrow> byte list option" where
  "base64ToArrayBuffer atob base64String = map_option (map of_char) (atob base64String)"

definition arrayBufferToBase64 :: "(string \<Rightarrow> string) \<Rightarrow> byte list \<Rightarrow> string" where
  "arrayBufferToBase64 btoa buffer = btoa (map (\<lambda>b. char_of (unat b)) buffer)"

text \<open>
  \<open>processIncomingAudio\<close> is an \<open>async\<close> function that nobody awaits: an exception in
  its body (from \<open>atob\<close>, or from calling \<open>settings.onAudioData\<close> when that is
  \<open>undefined\<close>) ends the body there and rejects a promise that is dropped; the caller
  goes on.
\<close>

definition processIncomingAudio ::
  "(string \<Rightarrow> string option) \<Rightarrow> ConversationManager \<Rightarrow> string \<Rightarrow> ConversationManager" where
  "processIncomingAudio atob s base64Audio =
     (case base64ToArrayBuffer atob base64Audio of
        None \<Rightarrow> s
      | Some audioBuffer \<Rightarrow>
          if \<not> onAudioData_given s then s
          else
            (let s1 = emit s (Call (OnAudioData audioBuffer));
                 s2 = s1\<lparr>gain_value := audioVolume s1\<rparr>;
                 s3 = emit s2 (Post ClearInterruptedMsg)
             in emit s3 (Post (BufferMsg audioBuffer))))"

definition handleIncomingAudio ::
  "(string \<Rightarrow> string option) \<Rightarrow> ConversationManager \<Rightarrow> int \<Rightarrow> string \<Rightarrow> ConversationManager" where
  "handleIncomingAudio atob s event_id audio_base_64 =
     (if lastInterruptTime s \<le> event_id
      then updateConversationMode (processIncomingAudio atob s audio_base_64) Speaking
      else s)"

definition handlePing :: "ConversationManager \<Rightarrow> int \<Rightarrow> ConversationManager" where
  "handlePing s event_id = emit s (Send (Pong event_id))"

fun handleWebSocketMessage ::
  "(string \<Rightarrow> string option) \<Rightarrow> ConversationManager \<Rightarrow> inbound \<Rightarrow> ConversationManager" where
  "handleWebSocketMessage atob s NotJson = handleError s ''Failed to parse WebSocket message''"
| "handleWebSocketMessage atob s Untyped = s"
| "handleWebSocketMessage atob s (Interruption interruption_event) =
     handleInterruption (updateConversationMode s Interrupted) interruption_event"
| "handleWebSocketMessage atob s (AgentResponse agent_response) =
     emit s (Call (OnMessage ''ai'' agent_response))"
| "handleWebSocketMessage atob s (UserTranscript user_transcript) =
     emit s (Call (OnMessage ''user'' user_transcript))"
| "handleWebSocketMessage atob s (InternalTentativeAgentResponse response) =
     emit s (Call (OnDebug (TentativeAgentResponse response)))"
| "handleWebSocketMessage atob s (Audio event_id audio_base_64) =
     handleIncomingAudio atob s event_id audio_base_64"
| "handleWebSocketMessage atob s (Ping event_id) = handlePing s event_id"
| "handleWebSocketMessage atob s data = emit s (Call (OnDebug (Frame data)))"

text \<open>The socket delivers frames one at a time; the dispatcher handles them in order.\<close>

definition dispatch ::
  "(string \<Rightarrow> string option) \<Rightarrow> ConversationManager \<Rightarrow> inbound list \<Rightarrow> ConversationManager" where
  "dispatch atob s frames = foldl (handleWebSocketMessage atob) s frames"

text \<open>
  \<open>handleInputAudioMessage\<close>: the argument is \<open>event.data[0].buffer\<close>, the bytes of the
  chunk the capture worklet posted.
\<close>

definition handleInputAudioMessage ::
  "(string \<Rightarrow> string) \<Rightarrow> ConversationManager \<Rightarrow> byte list \<Rightarrow> ConversationManager" where
  "handleInputAudioMessage btoa s buffer =
     (if connectionStatus s = Connected
      then emit s (Send (UserAudioChunk (arrayBufferToBase64 btoa buffer)))
      else s)"

text \<open>
  \<open>handleOutputAudioMessage\<close>: the playback worklet posts messages of type \<open>process\<close>
  only; the argument is their \<open>finished\<close>.
\<close>

definition handleOutputAudioMessage :: "ConversationManager \<Rightarrow> bool \<Rightarrow> ConversationManager" where
  "handleOutputAudioMessage s finished =
     updateConversationMode s (if finished then Listening else Speaking)"

definition handleWebSocketError :: "ConversationManager \<Rightarrow> ConversationManager" where
  "handleWebSocketError s = handleError (updateConnectionStatus s Disconnected) ''WebSocket error''"

definition handleWebSocketClose :: "ConversationManager \<Rightarrow> ConversationManager" where
  "handleWebSocketClose s = emit (updateConnectionStatus s Disconnected) (Call OnDisconnect)"

definition endSession :: "ConversationManager \<Rightarrow> ConversationManager" where
  "endSession s =
     (if connectionStatus s = Connected
      then
        (let s1 = updateConnectionStatus s Disconnecting;
             s2 = emit s1 (Close WebSocket);
             s3 = emit s2 (Close AudioInput);
             s4 = emit s3 (Close AudioOutput)
         in updateConnectionStatus s4 Disconnected)
      else s)"

definition setVolume :: "ConversationManager \<Rightarrow> real \<Rightarrow> ConversationManager" where
  "setVolume s volume = s\<lparr>audioVolume := volume\<rparr>"

section \<open>Opening a session\<close>

text \<open>
  What the socket does while \<open>WebSocketHandler.create\<close> waits: it delivers message
  frames, an error event or a close event.
\<close>

datatype socket_event = MessageEvent inbound | ErrorEvent | CloseEvent

text \<open>Settling a promise that is already settled changes nothing.\<close>

definition resolve :: "'a promise \<Rightarrow> 'a \<Rightarrow> 'a promise" where
  "resolve p v = (case p of Pending \<Rightarrow> Resolved v | _ \<Rightarrow> p)"

definition reject :: "'a promise \<Rightarrow> error \<Rightarrow> 'a promise" where
  "reject p e = (case p of Pending \<Rightarrow> Rejected e | _ \<Rightarrow> p)"

text \<open>
  The message listener of \<open>waitForMetadata\<close>. It resolves the promise with
  \<open>conversation_initiation_metadata_event\<close> (the conversation id and the audio format)
  on a metadata frame. On a frame of another type it warns on the console; on a value
  without a type it does nothing; on a frame that is not JSON \<open>JSON.parse\<close> throws inside
  the listener. None of these settles the promise.
\<close>

fun messageListener :: "(string \<times> string) promise \<Rightarrow> inbound \<Rightarrow> (string \<times> string) promise" where
  "messageListener p (ConversationInitiationMetadata conversation_id agent_output_audio_format) =
     resolve p (conversation_id, agent_output_audio_format)"
| "messageListener p data = p"

text \<open>
  The three listeners that \<open>waitForMetadata\<close> adds. The state is the promise and whether
  the message listener is still registered: it is added with \<open>once: true\<close>, so the
  first message event removes it.
\<close>

fun socketEvent ::
  "(string \<times> string) promise \<times> bool \<Rightarrow> socket_event \<Rightarrow> (string \<times> string) promise \<times> bool" where
  "socketEvent (p, registered) ErrorEvent = (reject p SocketErrorEvent, registered)"
| "socketEvent (p, registered) CloseEvent = (reject p SocketCloseEvent, registered)"
| "socketEvent (p, registered) (MessageEvent data) =
     (if registered then (messageListener p data, False) else (p, registered))"

text \<open>
  \<open>waitForMetadata(webSocket)\<close>: the state of the promise it returns, once the socket
  has delivered the given events. \<open>Pending\<close> says that the caller is still waiting.
\<close>

definition waitForMetadata :: "socket_event list \<Rightarrow> (string \<times> string) promise" where
  "waitForMetadata events = fst (foldl socketEvent (Pending, True) events)"

text \<open>
  \<open>WebSocketHandler.create(config)\<close>. \<open>new WebSocket(wsUrl)\<close> either throws (no socket
  exists then) or gives a socket that delivers events. The sample rate that \<open>create\<close>
  parses from the audio format is used to open the output device only, whose outcome
  is an input of the model below; the handler keeps the format as it came.
\<close>

datatype socket_env = ConstructorThrows error | Delivers "socket_event list"

record WebSocketHandler =
  ws_conversationId :: string
  ws_audioFormat :: string

definition WebSocketHandler_create :: "socket_env \<Rightarrow> effect list \<times> WebSocketHandler promise" where
  "WebSocketHandler_create env =
     (case env of
        ConstructorThrows e \<Rightarrow> ([], Rejected e)
      | Delivers events \<Rightarrow>
          (case waitForMetadata events of
             Pending \<Rightarrow> ([Open WebSocket], Pending)
           | Resolved (cid, fmt) \<Rightarrow>
               ([Open WebSocket], Resolved \<lparr>ws_conversationId = cid, ws_audioFormat = fmt\<rparr>)
           | Rejected e \<Rightarrow> ([Open WebSocket, Close WebSocket], Rejected e)))"

text \<open>
  The world \<open>ConversationManager.startSession\<close> runs in: whether
  \<open>AudioInputHandler.create\<close> throws (it releases what it had acquired itself before it
  rethrows), what the socket does, and whether \<open>AudioOutputHandler.create\<close> throws
  (likewise).
\<close>

record session_env =
  microphone :: "error option"
  socket :: socket_env
  outputDevice :: "error option"

text \<open>
  The \<open>catch\<close> block of \<open>startSession\<close>; the arguments say which of \<open>wsConnection\<close>,
  \<open>audioInput\<close> and \<open>audioOutput\<close> are not \<open>null\<close>. Closing is taken not to throw.
\<close>

definition startSession_catch :: "bool \<Rightarrow> bool \<Rightarrow> bool \<Rightarrow> effect list" where
  "startSession_catch wsConnection audioInput audioOutput =
     [Call (OnStatusChange Disconnected)]
     @ (if wsConnection then [Close WebSocket] else [])
     @ (if audioInput then [Close AudioInput] else [])
     @ (if audioOutput then [Close AudioOutput] else [])"

text \<open>
  \<open>ConversationManager.startSession(config)\<close>: the effects and the state of the promise
  returned. The first argument says whether \<open>config\<close> holds \<open>onAudioData\<close>.
\<close>

definition startSession :: "bool \<Rightarrow> session_env \<Rightarrow> effect list \<times> ConversationManager promise" where
  "startSession given env =
     (let e0 = [Call (OnStatusChange Connecting)]
      in case microphone env of
           Some err \<Rightarrow> (e0 @ startSession_catch False False False, Rejected err)
         | None \<Rightarrow>
             (let e1 = e0 @ [Open AudioInput]
              in case WebSocketHandler_create (socket env) of
                   (ws, Pending) \<Rightarrow> (e1 @ ws, Pending)
                 | (ws, Rejected err) \<Rightarrow>
                     (e1 @ ws @ startSession_catch False True False, Rejected err)
                 | (ws, Resolved wsConnection) \<Rightarrow>
                     (case outputDevice env of
                        Some err \<Rightarrow>
                          (e1 @ ws @ startSession_catch True True False, Rejected err)
                      | None \<Rightarrow>
                          (let m = newConversationManager given
                                     (ws_conversationId wsConnection)
                                     (e1 @ ws @ [Open AudioOutput])
                           in (effects m, Resolved m)))))"

text \<open>The resources a log of effects opens and closes, in order.\<close>

fun openedResources :: "effect list \<Rightarrow> resource list" where
  "openedResources [] = []"
| "openedResources (Open r # es) = r # openedResources es"
| "openedResources (e # es) = openedResources es"

fun closedResources :: "effect list \<Rightarrow> resource list" where
  "closedResources [] = []"
| "closedResources (Close r # es) = r # closedResources es"
| "closedResources (e # es) = closedResources es"

section \<open>The session hook\<close>

text \<open>
  \<open>useConversation\<close> keeps two references: the session in use and the promise of a
  session being started. A session object and a promise are known by a number each.
  \<open>sessionsStarted\<close> counts the calls of \<open>Conversation.startSession\<close>, each of which
  opens a microphone, a socket and an output device.
\<close>

record useConversation =
  conversationRef :: "nat option"
  pendingConversationRef :: "nat option"
  sessionsStarted :: nat

definition newUseConversation :: useConversation where
  "newUseConversation = \<lparr>conversationRef = None, pendingConversationRef = None, sessionsStarted = 0\<rparr>"

datatype jsvalue = SessionObject nat | ConversationIdString string

datatype outcome = Returns jsvalue | Throws error

text \<open>
  \<open>conversationRef.current.getId()\<close>: the class \<open>ConversationManager\<close> has
  \<open>getConversationId\<close> and no \<open>getId\<close>, so the call throws a \<open>TypeError\<close>.
\<close>

definition getId :: "nat \<Rightarrow> outcome" where
  "getId conversation = Throws (TypeError ''getId is not a function'')"

text \<open>
  \<open>startSession\<close> of the hook is an \<open>async\<close> function with one \<open>await\<close> on each path
  that goes on: a call runs to its \<open>await\<close> (\<open>startSession_call\<close>) and is resumed when the
  awaited promise settles (\<open>startSession_resume\<close>), with the session if it resolved and
  the error if it rejected. \<open>AwaitPending\<close> is the \<open>await\<close> of the branch that found a
  pending promise, \<open>AwaitNew\<close> the one after \<open>Conversation.startSession\<close>.
\<close>

datatype await = AwaitPending | AwaitNew

datatype call_state = Done outcome | Awaiting await

definition startSession_call :: "useConversation \<Rightarrow> useConversation \<times> call_state" where
  "startSession_call h =
     (case conversationRef h of
        Some conversation \<Rightarrow> (h, Done (getId conversation))
      | None \<Rightarrow>
          (case pendingConversationRef h of
             Some pending \<Rightarrow> (h, Awaiting AwaitPending)
           | None \<Rightarrow>
               (h\<lparr>pendingConversationRef := Some (sessionsStarted h),
                  sessionsStarted := Suc (sessionsStarted h)\<rparr>,
                Awaiting AwaitNew)))"

text \<open>The first version of the hook returns the session object after either \<open>await\<close>.\<close>

fun startSession_resume :: "useConversation \<Rightarrow> await \<Rightarrow> error + nat \<Rightarrow> useConversation \<times> outcome" where
  "startSession_resume h AwaitPending (Inr conversation) = (h, Returns (SessionObject conversation))"
| "startSession_resume h AwaitPending (Inl e) = (h, Throws e)"
| "startSession_resume h AwaitNew (Inr conversation) =
     (h\<lparr>conversationRef := Some conversation, pendingConversationRef := None\<rparr>,
      Returns (SessionObject conversation))"
| "startSession_resume h AwaitNew (Inl e) = (h\<lparr>pendingConversationRef := None\<rparr>, Throws e)"

text \<open>
  The second version of the hook differs after the \<open>await\<close>s only: it returns
  \<open>getId()\<close> of the session on both paths.
\<close>

fun startSession_resume2 :: "useConversation \<Rightarrow> await \<Rightarrow> error + nat \<Rightarrow> useConversation \<times> outcome" where
  "startSession_resume2 h AwaitPending (Inr conversation) = (h, getId conversation)"
| "startSession_resume2 h AwaitPending (Inl e) = (h, Throws e)"
| "startSession_resume2 h AwaitNew (Inr conversation) =
     (h\<lparr>conversationRef := Some conversation, pendingConversationRef := None\<rparr>,
      getId conversation)"
| "startSession_resume2 h AwaitNew (Inl e) = (h\<lparr>pendingConversationRef := None\<rparr>, Throws e)"

section \<open>Concrete inputs\<close>

text \<open>
  Two values of \<open>window.atob\<close> and of \<open>window.btoa\<close>, for evaluating the handlers on
  concrete frames: \<open>AQA=\<close> is the base64 text of the bytes 1, 0 (one sample, of value 1)
  and \<open>AAECAw==\<close> that of 0, 1, 2, 3. A string with a \<open>!\<close> is not base64.
\<close>

definition atob_excerpt :: "string \<Rightarrow> string option" where
  "atob_excerpt s =
     (if s = ''AQA='' then Some [CHR 0x01, CHR 0x00]
      else if s = ''AAECAw=='' then Some [CHR 0x00, CHR 0x01, CHR 0x02, CHR 0x03]
      else None)"

definition btoa_excerpt :: "string \<Rightarrow> string" where
  "btoa_excerpt s =
     (if s = [CHR 0x01, CHR 0x00] then ''AQA=''
      else if s = [CHR 0x00, CHR 0x01, CHR 0x02, CHR 0x03] then ''AAECAw==''
      else [])"

text \<open>A session just opened, with an audio sink: the result of a \<open>startSession\<close> that succeeds.\<close>

definition session0 :: ConversationManager where
  "session0 = newConversationManager True ''abc'' []"

text \<open>A worklet in the middle of a chunk, with another chunk queued.\<close>

definition playing :: AudioConcatProcessor where
  "playing =
     \<lparr>audioBuffers = [[3, 4]], currentPosition = 1, currentAudioBuffer = Some [1, 2],
      isInterrupted = False, isFinished = False\<rparr>"

text \<open>The frames that set \<open>lastInterruptTime\<close>: an interruption with its \<open>interruption_event\<close>.\<close>

fun carriesInterruptId :: "inbound \<Rightarrow> bool" where
  "carriesInterruptId (Interruption (Some k)) = True"
| "carriesInterruptId data = False"

section \<open>Reading a log of effects\<close>

text \<open>The \<open>onModeChange\<close> notifications, the frames sent and the messages posted to the worklet.\<close>

fun modeChanges :: "effect list \<Rightarrow> mode list" where
  "modeChanges [] = []"
| "modeChanges (Call (OnModeChange m) # es) = m # modeChanges es"
| "modeChanges (e # es) = modeChanges es"

fun sentFrames :: "effect list \<Rightarrow> outbound list" where
  "sentFrames [] = []"
| "sentFrames (Send frame # es) = frame # sentFrames es"
| "sentFrames (e # es) = sentFrames es"

fun posted :: "effect list \<Rightarrow> port_msg list" where
  "posted [] = []"
| "posted (Post m # es) = m # posted es"
| "posted (e # es) = posted es"

text \<open>The session after one audio frame: the agent is speaking and a chunk is queued.\<close>

definition session1 :: ConversationManager where
  "session1 = dispatch atob_excerpt session0 [Audio 1 ''AQA='']"

text \<open>
  Three worlds in which \<open>startSession\<close> fails, at the microphone, at the handshake and at
  the output device, and one in which the first frame is a ping.
\<close>

definition env_no_microphone :: session_env where
  "env_no_microphone =
     \<lparr>microphone = Some (DeviceError ''Permission denied''),
      socket = Delivers [MessageEvent (ConversationInitiationMetadata ''abc'' ''pcm_16000'')],
      outputDevice = None\<rparr>"

definition env_socket_closes :: session_env where
  "env_socket_closes = \<lparr>microphone = None, socket = Delivers [CloseEvent], outputDevice = None\<rparr>"

definition env_no_output :: session_env where
  "env_no_output =
     \<lparr>microphone = None,
      socket = Delivers [MessageEvent (ConversationInitiationMetadata ''abc'' ''pcm_16000'')],
      outputDevice = Some (DeviceError ''No output device'')\<rparr>"

definition env_ping_first :: session_env where
  "env_ping_first =
     \<lparr>microphone = None,
      socket = Delivers [MessageEvent (Ping 1),
                         MessageEvent (ConversationInitiationMetadata ''abc'' ''pcm_16000'')],
      outputDevice = None\<rparr>"

text \<open>The frames that complete the handshake.\<close>

fun isMetadata :: "inbound \<Rightarrow> bool" where
  "isMetadata (ConversationInitiationMetadata cid fmt) = True"
| "isMetadata data = False"



section \<open>Properties\<close>

subsection \<open>Sample conversion\<close>

lemma sint_toInt16:
  assumes "- 32768 \<le> r" "r \<le> 32767"
  shows "sint (toInt16 r) = truncation r"
proof -
  have lo: "- 32768 \<le> truncation r"
    using assms(1) unfolding truncation_def by (simp add: le_floor_iff le_ceiling_iff)
  have hi: "truncation r < 32768"
    using assms(2) unfolding truncation_def by (simp add: floor_less_iff ceiling_less_iff)
  show ?thesis
    unfolding toInt16_def using lo hi
    by (simp add: sint_sbintrunc' signed_take_bit_int_eq_self)
qed

lemma roundtrip_negative:
  assumes "- 1 \<le> x" "x < 0"
  shows "pcm16ToFloat (floatToPcm16 x) - x \<ge> 0" "pcm16ToFloat (floatToPcm16 x) - x < 1 / 32768"
proof -
  let ?r = "x * 32768"
  have enc: "floatToPcm16 x = toInt16 ?r"
    using assms by (simp add: floatToPcm16_def Let_def min_def max_def)
  have "sint (toInt16 ?r) = truncation ?r"
    using assms by (intro sint_toInt16) simp_all
  moreover have "truncation ?r = \<lceil>?r\<rceil>"
    using assms by (simp add: truncation_def mult_less_0_iff)
  ultimately have dec: "pcm16ToFloat (floatToPcm16 x) = real_of_int \<lceil>?r\<rceil> / 32768"
    by (simp add: enc pcm16ToFloat_def)
  have c1: "?r \<le> real_of_int \<lceil>?r\<rceil>" by (rule le_of_int_ceiling)
  have c2: "real_of_int \<lceil>?r\<rceil> < ?r + 1" by linarith
  show "pcm16ToFloat (floatToPcm16 x) - x \<ge> 0"
    unfolding dec using c1 by (simp add: field_simps)
  show "pcm16ToFloat (floatToPcm16 x) - x < 1 / 32768"
    unfolding dec using c2 by (simp add: field_simps)
qed

lemma roundtrip_nonnegative:
  assumes "0 \<le> x" "x \<le> 1"
  shows "x - pcm16ToFloat (floatToPcm16 x) \<ge> 0" "x - pcm16ToFloat (floatToPcm16 x) < 2 / 32768"
proof -
  let ?r = "x * 32767"
  have enc: "floatToPcm16 x = toInt16 ?r"
    using assms by (simp add: floatToPcm16_def Let_def min_def max_def)
  have "sint (toInt16 ?r) = truncation ?r"
    using assms by (intro sint_toInt16) simp_all
  moreover have "truncation ?r = \<lfloor>?r\<rfloor>"
    using assms by (simp add: truncation_def)
  ultimately have dec: "pcm16ToFloat (floatToPcm16 x) = real_of_int \<lfloor>?r\<rfloor> / 32768"
    by (simp add: enc pcm16ToFloat_def)
  have f1: "real_of_int \<lfloor>?r\<rfloor> \<le> ?r" by (rule of_int_floor_le)
  have f2: "?r < real_of_int \<lfloor>?r\<rfloor> + 1" by linarith
  have g1: "real_of_int \<lfloor>?r\<rfloor> \<le> x * 32768" using f1 assms by linarith
  have g2: "x * 32768 < real_of_int \<lfloor>?r\<rfloor> + 2" using f2 assms by linarith
  show "x - pcm16ToFloat (floatToPcm16 x) \<ge> 0"
    unfolding dec using g1 by (simp add: field_simps)
  show "x - pcm16ToFloat (floatToPcm16 x) < 2 / 32768"
    unfolding dec using g2 by (simp add: field_simps)
qed

text \<open>
  C4, as amended. Encoding a sample of \<open>[-1, 1]\<close> as the capture worklet does and
  decoding it as the playback worklet does changes it by less than two quantization
  steps, \<open>2 / 32768\<close>, and by less than one step if the sample is negative. (The
  conversion cuts the fraction off instead of rounding, and a sample that is not negative
  is scaled by 32767 and divided by 32768.)
\<close>

theorem pcm16_roundtrip_bound:
  assumes "- 1 \<le> x" "x \<le> 1"
  shows "\<bar>pcm16ToFloat (floatToPcm16 x) - x\<bar> < 2 / 32768
       \<and> (x < 0 \<longrightarrow> \<bar>pcm16ToFloat (floatToPcm16 x) - x\<bar> < 1 / 32768)"
proof (cases "x < 0")
  case True
  with assms roundtrip_negative [of x] show ?thesis by simp
next
  case False
  with assms roundtrip_nonnegative [of x] show ?thesis by simp
qed

theorem pcm16_roundtrip_bound_witness:
  "\<bar>pcm16ToFloat (floatToPcm16 (- 1 / 3)) - (- 1 / 3)\<bar> < 2 / 32768
   \<and> \<bar>pcm16ToFloat (floatToPcm16 (- 1 / 3)) - (- 1 / 3)\<bar> < 1 / 32768
   \<and> pcm16ToFloat (floatToPcm16 (- 1 / 3)) = - 10922 / 32768"
proof -
  have "pcm16ToFloat (floatToPcm16 (- 1 / 3)) = - 10922 / 32768"
    by (simp add: pcm16ToFloat_def floatToPcm16_def toInt16_def truncation_def)
  with pcm16_roundtrip_bound [of "- 1 / 3"] show ?thesis by simp
qed

text \<open>
  C4, as stated, fails: the sample \<open>65535 / 65536\<close> (a \<open>Float32Array\<close> value) is
  encoded as 32766 and decoded as \<open>32766 / 32768\<close>, one and a half steps below it.
\<close>

theorem pcm16_roundtrip_one_step_counterexample:
  "- 1 \<le> (65535 / 65536 :: real) \<and> (65535 / 65536 :: real) \<le> 1
   \<and> \<not> \<bar>pcm16ToFloat (floatToPcm16 (65535 / 65536)) - 65535 / 65536\<bar> \<le> 1 / 32768"
  by (simp add: pcm16ToFloat_def floatToPcm16_def toInt16_def truncation_def)


subsection \<open>The playback worklet\<close>

text \<open>
  C6. \<open>clearInterrupted\<close> after \<open>interrupt\<close> empties the queue, discards the chunk in
  progress and clears the flag; \<open>clearInterrupted\<close> with the flag unset changes nothing.
\<close>

theorem clearInterrupted_after_interrupt:
  "audioBuffers (handleClearInterruption (handleInterruption_worklet p)) = []
   \<and> currentAudioBuffer (handleClearInterruption (handleInterruption_worklet p)) = None
   \<and> \<not> isInterrupted (handleClearInterruption (handleInterruption_worklet p))
   \<and> (\<not> isInterrupted p \<longrightarrow> handleClearInterruption p = p)"
  by (simp add: handleClearInterruption_def handleInterruption_worklet_def)

theorem clearInterrupted_after_interrupt_witness:
  "audioBuffers (handleClearInterruption (handleInterruption_worklet playing)) = []
   \<and> currentAudioBuffer (handleClearInterruption (handleInterruption_worklet playing)) = None
   \<and> \<not> isInterrupted (handleClearInterruption (handleInterruption_worklet playing))
   \<and> \<not> isInterrupted playing
   \<and> handleClearInterruption playing = playing
   \<and> audioBuffers playing = [[3, 4]]"
  using clearInterrupted_after_interrupt [of playing]
  by (simp add: playing_def)


subsection \<open>The manager's handlers, field by field\<close>

lemma emit_simps [simp]:
  "lastInterruptTime (emit s e) = lastInterruptTime s"
  "conversationMode (emit s e) = conversationMode s"
  "connectionStatus (emit s e) = connectionStatus s"
  "audioVolume (emit s e) = audioVolume s"
  "onAudioData_given (emit s e) = onAudioData_given s"
  "conversationId (emit s e) = conversationId s"
  "gain_value (emit s e) = gain_value s"
  "effects (emit s e) = effects s @ [e]"
  by (simp_all add: emit_def)

lemma updateConversationMode_simps [simp]:
  "lastInterruptTime (updateConversationMode s m) = lastInterruptTime s"
  "conversationMode (updateConversationMode s m) = m"
  "connectionStatus (updateConversationMode s m) = connectionStatus s"
  "audioVolume (updateConversationMode s m) = audioVolume s"
  "onAudioData_given (updateConversationMode s m) = onAudioData_given s"
  "conversationId (updateConversationMode s m) = conversationId s"
  "gain_value (updateConversationMode s m) = gain_value s"
  "effects (updateConversationMode s m) =
     effects s @ (if m \<noteq> conversationMode s then [Call (OnModeChange m)] else [])"
  by (simp_all add: updateConversationMode_def)

lemma fadeOutAudio_simps [simp]:
  "lastInterruptTime (fadeOutAudio s) = lastInterruptTime s"
  "conversationMode (fadeOutAudio s) = Listening"
  "connectionStatus (fadeOutAudio s) = connectionStatus s"
  "audioVolume (fadeOutAudio s) = audioVolume s"
  "onAudioData_given (fadeOutAudio s) = onAudioData_given s"
  "gain_value (fadeOutAudio s) = gain_value s"
  by (simp_all add: fadeOutAudio_def Let_def)

lemma processIncomingAudio_simps [simp]:
  "lastInterruptTime (processIncomingAudio atob s b) = lastInterruptTime s"
  "conversationMode (processIncomingAudio atob s b) = conversationMode s"
  "connectionStatus (processIncomingAudio atob s b) = connectionStatus s"
  "audioVolume (processIncomingAudio atob s b) = audioVolume s"
  "onAudioData_given (processIncomingAudio atob s b) = onAudioData_given s"
  by (simp_all add: processIncomingAudio_def Let_def split: option.split)

lemma handle_lastInterruptTime:
  "lastInterruptTime (handleWebSocketMessage atob s data) =
     (case data of Interruption (Some k) \<Rightarrow> k | _ \<Rightarrow> lastInterruptTime s)"
  by (cases data)
     (simp_all add: handleError_def handleInterruption_def handleIncomingAudio_def handlePing_def
        split: option.split)

lemma handle_onAudioData_given [simp]:
  "onAudioData_given (handleWebSocketMessage atob s data) = onAudioData_given s"
  by (cases data)
     (simp_all add: handleError_def handleInterruption_def handleIncomingAudio_def handlePing_def
        split: option.split)

lemma dispatch_Nil [simp]: "dispatch atob s [] = s"
  by (simp add: dispatch_def)

lemma dispatch_Cons:
  "dispatch atob s (f # fs) = dispatch atob (handleWebSocketMessage atob s f) fs"
  by (simp add: dispatch_def)

lemma dispatch_append:
  "dispatch atob s (fs @ gs) = dispatch atob (dispatch atob s fs) gs"
  by (simp add: dispatch_def)

lemma dispatch_snoc:
  "dispatch atob s (fs @ [f]) = handleWebSocketMessage atob (dispatch atob s fs) f"
  by (simp add: dispatch_def)

lemma dispatch_onAudioData_given [simp]:
  "onAudioData_given (dispatch atob s fs) = onAudioData_given s"
  by (induction fs arbitrary: s) (simp_all add: dispatch_Cons)

lemma dispatch_lastInterruptTime_unchanged:
  "\<forall>f \<in> set fs. \<not> carriesInterruptId f \<Longrightarrow>
     lastInterruptTime (dispatch atob s fs) = lastInterruptTime s"
proof (induction fs arbitrary: s)
  case Nil
  show ?case by simp
next
  case (Cons f fs)
  from Cons.prems have nf: "\<not> carriesInterruptId f" by simp
  have "lastInterruptTime (handleWebSocketMessage atob s f) = lastInterruptTime s"
    unfolding handle_lastInterruptTime using nf by (auto split: inbound.split option.split)
  with Cons show ?case by (simp add: dispatch_Cons)
qed

lemma processIncomingAudio_accepts:
  assumes "base64ToArrayBuffer atob b = Some buf" "onAudioData_given s"
  shows "gain_value (processIncomingAudio atob s b) = audioVolume s"
    and "effects (processIncomingAudio atob s b) =
           effects s @ [Call (OnAudioData buf), Post ClearInterruptedMsg, Post (BufferMsg buf)]"
  using assms by (simp_all add: processIncomingAudio_def Let_def)

lemma handleIncomingAudio_dropped:
  "event_id < lastInterruptTime s \<Longrightarrow> handleWebSocketMessage atob s (Audio event_id b) = s"
  by (simp add: handleIncomingAudio_def)

lemma handleIncomingAudio_accepted:
  assumes "lastInterruptTime s \<le> event_id" "base64ToArrayBuffer atob b = Some buf"
    "onAudioData_given s"
  shows "conversationMode (handleWebSocketMessage atob s (Audio event_id b)) = Speaking"
    and "gain_value (handleWebSocketMessage atob s (Audio event_id b)) = audioVolume s"
    and "effects (handleWebSocketMessage atob s (Audio event_id b)) =
           effects s @ [Call (OnAudioData buf), Post ClearInterruptedMsg, Post (BufferMsg buf)]
           @ (if conversationMode s = Speaking then [] else [Call (OnModeChange Speaking)])"
  using assms by (auto simp add: handleIncomingAudio_def processIncomingAudio_accepts)

lemma session0_eval:
  "session0 = \<lparr>lastInterruptTime = 0, conversationMode = Listening,
    connectionStatus = Connected, audioVolume = 1, onAudioData_given = True,
    conversationId = ''abc'', gain_value = 1,
    effects = [Call (OnConnect ''abc''), Call (OnStatusChange Connected)]\<rparr>"
  by (simp add: session0_def newConversationManager_def initializeEventListeners_def
      updateConnectionStatus_def emit_def)

lemma atob_excerpt_simps [simp]:
  "base64ToArrayBuffer atob_excerpt ''AQA='' = Some [1, 0]"
  "base64ToArrayBuffer atob_excerpt ''AAECAw=='' = Some [0, 1, 2, 3]"
  by (simp_all add: base64ToArrayBuffer_def atob_excerpt_def)

lemma modeChanges_append [simp]: "modeChanges (xs @ ys) = modeChanges xs @ modeChanges ys"
  by (induction xs rule: modeChanges.induct) simp_all

lemma sentFrames_append [simp]: "sentFrames (xs @ ys) = sentFrames xs @ sentFrames ys"
  by (induction xs rule: sentFrames.induct) simp_all

lemma posted_append [simp]: "posted (xs @ ys) = posted xs @ posted ys"
  by (induction xs rule: posted.induct) simp_all

lemma modeChanges_processIncomingAudio [simp]:
  "modeChanges (effects (processIncomingAudio atob s b)) = modeChanges (effects s)"
  by (simp add: processIncomingAudio_def Let_def split: option.split)

lemma modeChanges_accepted_audio:
  assumes "lastInterruptTime s \<le> event_id"
  shows "modeChanges (effects (handleWebSocketMessage atob s (Audio event_id b))) =
           modeChanges (effects s) @ (if conversationMode s = Speaking then [] else [Speaking])"
    and "conversationMode (handleWebSocketMessage atob s (Audio event_id b)) = Speaking"
    and "lastInterruptTime (handleWebSocketMessage atob s (Audio event_id b)) = lastInterruptTime s"
  using assms by (auto simp add: handleIncomingAudio_def)

subsection \<open>The ordering guard\<close>

text \<open>
  What holds of the guard. The id it compares with is the one of the last interruption
  that carried an \<open>interruption_event\<close>; an audio frame with an id below it leaves the
  manager and its log as they are, so nothing is decoded, forwarded, posted or notified.
\<close>

lemma lastInterruptTime_after_interruption:
  assumes "\<forall>f \<in> set post. \<not> carriesInterruptId f"
  shows "lastInterruptTime (dispatch atob s0 (pre @ Interruption (Some k) # post)) = k"
proof -
  have "dispatch atob s0 (pre @ Interruption (Some k) # post)
          = dispatch atob (dispatch atob s0 (pre @ [Interruption (Some k)])) post"
    by (simp add: dispatch_def)
  moreover have "lastInterruptTime (dispatch atob s0 (pre @ [Interruption (Some k)])) = k"
    by (simp add: dispatch_snoc handleInterruption_def)
  ultimately show ?thesis
    using assms dispatch_lastInterruptTime_unchanged by simp
qed




subsection \<open>Mode notifications\<close>

text \<open>
  C7. \<open>updateConversationMode\<close> notifies \<open>onModeChange\<close> exactly when the new mode
  differs from the stored one: the notifications in the log grow by the new mode if it
  differs and by nothing if it is equal, in which case the manager is left as it was. In
  particular, two audio frames in a row, both passing the ordering guard, handled in
  listening mode, add exactly one notification, of \<open>speaking\<close>.
\<close>

theorem mode_change_edge_triggered:
  "modeChanges (effects (updateConversationMode s newMode)) =
     modeChanges (effects s) @ (if newMode \<noteq> conversationMode s then [newMode] else [])
   \<and> (newMode = conversationMode s \<longrightarrow> updateConversationMode s newMode = s)
   \<and> (conversationMode s = Listening \<longrightarrow> lastInterruptTime s \<le> id1 \<longrightarrow> lastInterruptTime s \<le> id2 \<longrightarrow>
        modeChanges (effects (dispatch atob s [Audio id1 b1, Audio id2 b2])) =
          modeChanges (effects s) @ [Speaking])"
proof -
  have a: "modeChanges (effects (updateConversationMode s newMode)) =
     modeChanges (effects s) @ (if newMode \<noteq> conversationMode s then [newMode] else [])"
    by simp
  have b: "newMode = conversationMode s \<longrightarrow> updateConversationMode s newMode = s"
    by (simp add: updateConversationMode_def)
  have c: "modeChanges (effects (dispatch atob s [Audio id1 b1, Audio id2 b2])) =
          modeChanges (effects s) @ [Speaking]"
    if "conversationMode s = Listening" "lastInterruptTime s \<le> id1" "lastInterruptTime s \<le> id2"
  proof -
    let ?s1 = "handleWebSocketMessage atob s (Audio id1 b1)"
    have d: "dispatch atob s [Audio id1 b1, Audio id2 b2] = handleWebSocketMessage atob ?s1 (Audio id2 b2)"
      by (simp add: dispatch_def)
    have l: "lastInterruptTime ?s1 \<le> id2"
      using that modeChanges_accepted_audio(3) [of s id1 atob b1] by simp
    show ?thesis
      unfolding d
      using that modeChanges_accepted_audio(1,2) [of s id1 atob b1]
        modeChanges_accepted_audio(1) [OF l, of atob b2]
      by simp
  qed
  from a b c show ?thesis by blast
qed

theorem mode_change_edge_triggered_witness:
  "modeChanges (effects (updateConversationMode session0 Speaking)) =
     modeChanges (effects session0) @ [Speaking]
   \<and> Listening = conversationMode session0
   \<and> updateConversationMode session0 Listening = session0
   \<and> lastInterruptTime session0 \<le> 1 \<and> lastInterruptTime session0 \<le> 2
   \<and> modeChanges (effects (dispatch atob_excerpt session0 [Audio 1 ''AQA='', Audio 2 ''AAECAw=='']))
       = [Speaking]"
  using mode_change_edge_triggered [of session0 Speaking 1 2 atob_excerpt "''AQA=''" "''AAECAw==''"]
    mode_change_edge_triggered [of session0 Listening 1 2 atob_excerpt "''AQA=''" "''AAECAw==''"]
  by (simp add: session0_eval)

subsection \<open>The id of the last interruption\<close>

text \<open>
  C9, as amended. \<open>lastInterruptTime\<close> starts at 0. An interruption frame with an
  \<open>interruption_event\<close> sets it to the id of that event, larger or smaller; every other
  frame leaves it as it is. So handling a frame does not decrease it, unless the frame is
  an interruption carrying an id below its value.
\<close>

theorem lastInterruptTime_updates:
  "lastInterruptTime (newConversationManager given cid effs) = 0
   \<and> lastInterruptTime (handleWebSocketMessage atob s (Interruption (Some k))) = k
   \<and> (\<not> carriesInterruptId frame \<longrightarrow>
        lastInterruptTime (handleWebSocketMessage atob s frame) = lastInterruptTime s)
   \<and> ((\<forall>k. frame = Interruption (Some k) \<longrightarrow> lastInterruptTime s \<le> k) \<longrightarrow>
        lastInterruptTime s \<le> lastInterruptTime (handleWebSocketMessage atob s frame))"
proof -
  have a: "lastInterruptTime (newConversationManager given cid effs) = 0"
    by (simp add: newConversationManager_def initializeEventListeners_def updateConnectionStatus_def)
  have b: "lastInterruptTime (handleWebSocketMessage atob s (Interruption (Some k))) = k"
    by (simp add: handle_lastInterruptTime del: handleWebSocketMessage.simps)
  have c: "lastInterruptTime (handleWebSocketMessage atob s frame) = lastInterruptTime s"
    if "\<not> carriesInterruptId frame"
    using that dispatch_lastInterruptTime_unchanged [of "[frame]" atob s]
    by (simp add: dispatch_def)
  have d: "lastInterruptTime s \<le> lastInterruptTime (handleWebSocketMessage atob s frame)"
    if "\<forall>k. frame = Interruption (Some k) \<longrightarrow> lastInterruptTime s \<le> k"
    unfolding handle_lastInterruptTime using that by (auto split: inbound.split option.split)
  from a b c d show ?thesis by blast
qed

theorem lastInterruptTime_updates_witness:
  "lastInterruptTime session0 = 0
   \<and> lastInterruptTime (handleWebSocketMessage atob_excerpt session0 (Interruption (Some 5))) = 5
   \<and> \<not> carriesInterruptId (Audio 1 ''AQA='')
   \<and> lastInterruptTime (handleWebSocketMessage atob_excerpt session0 (Audio 1 ''AQA='')) = 0
   \<and> lastInterruptTime session0 \<le> lastInterruptTime (handleWebSocketMessage atob_excerpt session0 (Interruption (Some 5)))"
  using lastInterruptTime_updates [of True "''abc''" "[]" atob_excerpt session0 5 "Audio 1 ''AQA=''"]
    lastInterruptTime_updates [of True "''abc''" "[]" atob_excerpt session0 5 "Interruption (Some 5)"]
  by (simp add: session0_def)

text \<open>
  C9, as stated, fails: after the interruption 5, the interruption 2 lowers
  \<open>lastInterruptTime\<close> from 5 to 2.
\<close>

theorem lastInterruptTime_decreases_counterexample:
  "lastInterruptTime (dispatch atob_excerpt session0 [Interruption (Some 5)]) = 5
   \<and> lastInterruptTime (handleWebSocketMessage atob_excerpt
        (dispatch atob_excerpt session0 [Interruption (Some 5)]) (Interruption (Some 2))) = 2
   \<and> \<not> lastInterruptTime (dispatch atob_excerpt session0 [Interruption (Some 5)])
        \<le> lastInterruptTime (handleWebSocketMessage atob_excerpt
             (dispatch atob_excerpt session0 [Interruption (Some 5)]) (Interruption (Some 2)))"
  by (simp add: dispatch_def handleInterruption_def)

subsection \<open>Volume\<close>

lemma session1_eval:
  "session1 = \<lparr>lastInterruptTime = 0, conversationMode = Speaking,
    connectionStatus = Connected, audioVolume = 1, onAudioData_given = True,
    conversationId = ''abc'', gain_value = 1,
    effects = [Call (OnConnect ''abc''), Call (OnStatusChange Connected),
       Call (OnAudioData [1, 0]), Post ClearInterruptedMsg, Post (BufferMsg [1, 0]),
       Call (OnModeChange Speaking)]\<rparr>"
  by (simp add: session1_def session0_eval dispatch_def handleIncomingAudio_def
      processIncomingAudio_def updateConversationMode_def emit_def)

text \<open>
  C8, as amended. \<open>setVolume\<close> stores the configured volume at once and does nothing
  else: the gain of the output and the log of effects stay as they are. The gain takes
  the configured volume when the timer of a fade-out fires, and when the next audio
  frame is accepted (one that passes the guard, whose payload decodes, in a session with
  an \<open>onAudioData\<close> handler).
\<close>

theorem setVolume_configured_gain_only:
  "audioVolume (setVolume s volume) = volume
   \<and> gain_value (setVolume s volume) = gain_value s
   \<and> effects (setVolume s volume) = effects s
   \<and> gain_value (fadeTimeout (setVolume s volume)) = volume
   \<and> (lastInterruptTime s \<le> event_id \<longrightarrow> base64ToArrayBuffer atob b = Some buf \<longrightarrow>
        onAudioData_given s \<longrightarrow>
        gain_value (handleWebSocketMessage atob (setVolume s volume) (Audio event_id b)) = volume)"
proof -
  have "gain_value (handleWebSocketMessage atob (setVolume s volume) (Audio event_id b)) = volume"
    if "lastInterruptTime s \<le> event_id" "base64ToArrayBuffer atob b = Some buf" "onAudioData_given s"
    using that handleIncomingAudio_accepted(2) [of "setVolume s volume" event_id atob b buf]
    by (simp add: setVolume_def)
  then show ?thesis
    by (simp add: setVolume_def fadeTimeout_def)
qed

theorem setVolume_configured_gain_only_witness:
  "audioVolume (setVolume session1 (1 / 2)) = 1 / 2
   \<and> gain_value (setVolume session1 (1 / 2)) = gain_value session1
   \<and> effects (setVolume session1 (1 / 2)) = effects session1
   \<and> gain_value (fadeTimeout (setVolume session1 (1 / 2))) = 1 / 2
   \<and> lastInterruptTime session1 \<le> 2
   \<and> base64ToArrayBuffer atob_excerpt ''AAECAw=='' = Some [0, 1, 2, 3]
   \<and> onAudioData_given session1
   \<and> gain_value (handleWebSocketMessage atob_excerpt (setVolume session1 (1 / 2)) (Audio 2 ''AAECAw=='')) = 1 / 2"
  using setVolume_configured_gain_only [of session1 "1 / 2" 2 atob_excerpt "''AAECAw==''" "[0, 1, 2, 3]"]
  by (simp add: session1_eval)

text \<open>
  C8, as stated, fails: with a chunk queued in the worklet and the mode \<open>speaking\<close>,
  \<open>setVolume\<close> of one half leaves the gain of the output at 1.
\<close>

theorem setVolume_live_gain_counterexample:
  "posted (effects session1) = [ClearInterruptedMsg, BufferMsg [1, 0]]
   \<and> audioBuffers (foldl onmessage newAudioConcatProcessor (posted (effects session1))) = [[1]]
   \<and> conversationMode session1 = Speaking
   \<and> gain_value session1 = 1
   \<and> audioVolume (setVolume session1 (1 / 2)) = 1 / 2
   \<and> gain_value (setVolume session1 (1 / 2)) = 1
   \<and> gain_value (setVolume session1 (1 / 2)) \<noteq> 1 / 2"
  by (simp add: session1_eval setVolume_def newAudioConcatProcessor_def handleNewBuffer_def
      handleClearInterruption_def)

subsection \<open>Captured chunks\<close>

text \<open>
  C10. A chunk from the capture worklet is sent on the socket if and only if the status
  is \<open>connected\<close> when it arrives: the frames sent grow by the chunk in base64 then and
  by nothing otherwise. In any other status the manager is left exactly as it was, so
  the chunk is kept nowhere and nothing later can send it.
\<close>

theorem input_chunk_sent_iff_connected:
  "sentFrames (effects (handleInputAudioMessage btoa s buffer)) =
     sentFrames (effects s)
     @ (if connectionStatus s = Connected
        then [UserAudioChunk (arrayBufferToBase64 btoa buffer)] else [])
   \<and> (connectionStatus s \<noteq> Connected \<longrightarrow> handleInputAudioMessage btoa s buffer = s)"
  by (simp add: handleInputAudioMessage_def)


theorem input_chunk_sent_iff_connected_witness:
  "connectionStatus session0 = Connected
   \<and> sentFrames (effects (handleInputAudioMessage btoa_excerpt session0 [1, 0])) = [UserAudioChunk ''AQA='']
   \<and> connectionStatus (handleWebSocketClose session0) \<noteq> Connected
   \<and> handleInputAudioMessage btoa_excerpt (handleWebSocketClose session0) [1, 0] = handleWebSocketClose session0
   \<and> sentFrames (effects (handleInputAudioMessage btoa_excerpt (handleWebSocketClose session0) [1, 0])) = []"
proof -
  have c: "connectionStatus (handleWebSocketClose session0) = Disconnected"
    by (simp add: handleWebSocketClose_def updateConnectionStatus_def session0_eval)
  have e: "sentFrames (effects (handleWebSocketClose session0)) = []"
    by (simp add: handleWebSocketClose_def updateConnectionStatus_def session0_eval emit_def)
  have b: "arrayBufferToBase64 btoa_excerpt [1, 0] = ''AQA=''"
    by code_simp
  show ?thesis
    using input_chunk_sent_iff_connected [of btoa_excerpt session0 "[1, 0]"]
      input_chunk_sent_iff_connected [of btoa_excerpt "handleWebSocketClose session0" "[1, 0]"]
      c e b
    by (simp add: session0_eval)
qed

subsection \<open>Failure of \<open>startSession\<close>\<close>

lemma startSession_catch_resources [simp]:
  "openedResources (startSession_catch w i out) = []"
  "closedResources (startSession_catch w i out) =
     (if w then [WebSocket] else []) @ (if i then [AudioInput] else [])
     @ (if out then [AudioOutput] else [])"
  by (simp_all add: startSession_catch_def)

lemma openedResources_append [simp]:
  "openedResources (xs @ ys) = openedResources xs @ openedResources ys"
  by (induction xs rule: openedResources.induct) simp_all

lemma closedResources_append [simp]:
  "closedResources (xs @ ys) = closedResources xs @ closedResources ys"
  by (induction xs rule: closedResources.induct) simp_all

lemma WebSocketHandler_create_Rejected:
  assumes "WebSocketHandler_create env = (ws, Rejected e)"
  shows "closedResources ws = openedResources ws" "set (openedResources ws) \<subseteq> {WebSocket}"
    "length (openedResources ws) \<le> 1"
  using assms
  by (auto simp add: WebSocketHandler_create_def split: socket_env.splits promise.splits prod.splits)

lemma WebSocketHandler_create_Resolved:
  assumes "WebSocketHandler_create env = (ws, Resolved h)"
  shows "ws = [Open WebSocket]"
  using assms
  by (auto simp add: WebSocketHandler_create_def split: socket_env.splits promise.splits prod.splits)

lemma startSession_microphone_fails:
  assumes "microphone env = Some e"
  shows "startSession given env =
           ([Call (OnStatusChange Connecting), Call (OnStatusChange Disconnected)], Rejected e)"
  using assms by (simp add: startSession_def startSession_catch_def)

lemma startSession_socket_fails:
  assumes "microphone env = None" "WebSocketHandler_create (socket env) = (ws, Rejected e)"
  shows "startSession given env =
           ([Call (OnStatusChange Connecting), Open AudioInput] @ ws
            @ [Call (OnStatusChange Disconnected), Close AudioInput], Rejected e)"
  using assms by (simp add: startSession_def startSession_catch_def)

lemma startSession_output_fails:
  assumes "microphone env = None" "WebSocketHandler_create (socket env) = (ws, Resolved h)"
    "outputDevice env = Some e"
  shows "startSession given env =
           ([Call (OnStatusChange Connecting), Open AudioInput, Open WebSocket,
             Call (OnStatusChange Disconnected), Close WebSocket, Close AudioInput], Rejected e)"
  using assms WebSocketHandler_create_Resolved [OF assms(2)]
  by (simp add: startSession_def startSession_catch_def)

text \<open>
  C2. Whichever step of \<open>startSession\<close> fails (the microphone, the socket or its
  handshake, the output device), the promise is rejected with the error of that step,
  the resources closed are the resources opened, in reverse order, and \<open>onStatusChange\<close>
  is called with \<open>disconnected\<close>.
\<close>

theorem startSession_failure_unwinds:
  "((microphone env = Some e
     \<or> (microphone env = None \<and> snd (WebSocketHandler_create (socket env)) = Rejected e)
     \<or> (microphone env = None \<and> snd (WebSocketHandler_create (socket env)) = Resolved h
         \<and> outputDevice env = Some e))
    \<longrightarrow> snd (startSession given env) = Rejected e
      \<and> closedResources (fst (startSession given env))
          = rev (openedResources (fst (startSession given env)))
      \<and> Call (OnStatusChange Disconnected) \<in> set (fst (startSession given env)))"
proof (intro impI, elim disjE conjE)
  assume "microphone env = Some e"
  then show "snd (startSession given env) = Rejected e
      \<and> closedResources (fst (startSession given env))
          = rev (openedResources (fst (startSession given env)))
      \<and> Call (OnStatusChange Disconnected) \<in> set (fst (startSession given env))"
    by (simp add: startSession_microphone_fails)
next
  assume m: "microphone env = None" and w: "snd (WebSocketHandler_create (socket env)) = Rejected e"
  obtain ws where c: "WebSocketHandler_create (socket env) = (ws, Rejected e)"
    using w by (cases "WebSocketHandler_create (socket env)") simp
  have "rev (openedResources ws) = openedResources ws"
    using WebSocketHandler_create_Rejected(3) [OF c]
    by (cases "openedResources ws") simp_all
  then show "snd (startSession given env) = Rejected e
      \<and> closedResources (fst (startSession given env))
          = rev (openedResources (fst (startSession given env)))
      \<and> Call (OnStatusChange Disconnected) \<in> set (fst (startSession given env))"
    using WebSocketHandler_create_Rejected(1) [OF c]
    by (simp add: startSession_socket_fails [OF m c])
next
  assume m: "microphone env = None" and w: "snd (WebSocketHandler_create (socket env)) = Resolved h"
    and out: "outputDevice env = Some e"
  obtain ws where c: "WebSocketHandler_create (socket env) = (ws, Resolved h)"
    using w by (cases "WebSocketHandler_create (socket env)") simp
  show "snd (startSession given env) = Rejected e
      \<and> closedResources (fst (startSession given env))
          = rev (openedResources (fst (startSession given env)))
      \<and> Call (OnStatusChange Disconnected) \<in> set (fst (startSession given env))"
    by (simp add: startSession_output_fails [OF m c out])
qed

lemma env_evals:
  "WebSocketHandler_create (socket env_socket_closes) = ([Open WebSocket, Close WebSocket], Rejected SocketCloseEvent)"
  "WebSocketHandler_create (socket env_no_output) =
     ([Open WebSocket], Resolved \<lparr>ws_conversationId = ''abc'', ws_audioFormat = ''pcm_16000''\<rparr>)"
  by (simp_all add: env_socket_closes_def env_no_output_def WebSocketHandler_create_def
      waitForMetadata_def reject_def resolve_def)

theorem startSession_failure_unwinds_witness:
  "microphone env_no_microphone = Some (DeviceError ''Permission denied'')
   \<and> startSession True env_no_microphone
       = ([Call (OnStatusChange Connecting), Call (OnStatusChange Disconnected)],
          Rejected (DeviceError ''Permission denied''))
   \<and> microphone env_socket_closes = None
   \<and> snd (WebSocketHandler_create (socket env_socket_closes)) = Rejected SocketCloseEvent
   \<and> snd (startSession True env_socket_closes) = Rejected SocketCloseEvent
   \<and> openedResources (fst (startSession True env_socket_closes)) = [AudioInput, WebSocket]
   \<and> closedResources (fst (startSession True env_socket_closes)) = [WebSocket, AudioInput]
   \<and> microphone env_no_output = None
   \<and> outputDevice env_no_output = Some (DeviceError ''No output device'')
   \<and> snd (startSession True env_no_output) = Rejected (DeviceError ''No output device'')
   \<and> openedResources (fst (startSession True env_no_output)) = [AudioInput, WebSocket]
   \<and> closedResources (fst (startSession True env_no_output)) = [WebSocket, AudioInput]
   \<and> Call (OnStatusChange Disconnected) \<in> set (fst (startSession True env_no_output))"
proof -
  have m: "microphone env_no_microphone = Some (DeviceError ''Permission denied'')"
    "microphone env_socket_closes = None" "microphone env_no_output = None"
    "outputDevice env_no_output = Some (DeviceError ''No output device'')"
    by (simp_all add: env_no_microphone_def env_socket_closes_def env_no_output_def)
  have o: "openedResources (fst (startSession True env_socket_closes)) = [AudioInput, WebSocket]"
    "openedResources (fst (startSession True env_no_output)) = [AudioInput, WebSocket]"
    "fst (startSession True env_no_microphone)
       = [Call (OnStatusChange Connecting), Call (OnStatusChange Disconnected)]"
    by (simp_all add: startSession_socket_fails [OF m(2) env_evals(1)]
        startSession_output_fails [OF m(3) env_evals(2) m(4)]
        startSession_microphone_fails [OF m(1)])
  show ?thesis
    using startSession_failure_unwinds [of env_no_microphone "DeviceError ''Permission denied''"
        "\<lparr>ws_conversationId = ''abc'', ws_audioFormat = ''pcm_16000''\<rparr>" True]
      startSession_failure_unwinds [of env_socket_closes SocketCloseEvent
        "\<lparr>ws_conversationId = ''abc'', ws_audioFormat = ''pcm_16000''\<rparr>" True]
      startSession_failure_unwinds [of env_no_output "DeviceError ''No output device''"
         "\<lparr>ws_conversationId = ''abc'', ws_audioFormat = ''pcm_16000''\<rparr>" True]
      m o env_evals
    by (simp add: prod_eq_iff)
qed

subsection \<open>The handshake\<close>

lemma messageListener_settled:
  "p \<noteq> Pending \<Longrightarrow> messageListener p data = p"
  by (cases data; cases p) (simp_all add: resolve_def)

lemma socketEvent_settled:
  "p \<noteq> Pending \<Longrightarrow> fst (socketEvent (p, r) ev) = p"
  by (cases ev; cases p) (simp_all add: reject_def messageListener_settled)

lemma foldl_socketEvent_not_registered:
  "\<forall>ev \<in> set evs. \<exists>data. ev = MessageEvent data \<Longrightarrow>
     foldl socketEvent (Pending, False) evs = (Pending, False)"
  by (induction evs) auto

text \<open>
  A first frame that is not the metadata leaves the promise pending whatever frames
  follow, the metadata included: the message listener is gone. An error or a close of
  the socket before any frame rejects it.
\<close>

lemma waitForMetadata_hangs:
  assumes "\<not> isMetadata first" "\<forall>ev \<in> set rest. \<exists>data. ev = MessageEvent data"
  shows "waitForMetadata (MessageEvent first # rest) = Pending"
proof -
  have "messageListener Pending first = Pending"
    using assms(1) by (cases first) simp_all
  then show ?thesis
    using foldl_socketEvent_not_registered [OF assms(2)]
    by (simp add: waitForMetadata_def)
qed

lemma waitForMetadata_error_first:
  "waitForMetadata (ErrorEvent # rest) = Rejected SocketErrorEvent"
  "waitForMetadata (CloseEvent # rest) = Rejected SocketCloseEvent"
proof -
  have "fst (foldl socketEvent (p, r) rest) = p" if "p \<noteq> Pending" for p :: "(string \<times> string) promise" and r
    using that
  proof (induction rest arbitrary: r)
    case Nil show ?case by simp
  next
    case (Cons ev rest)
    obtain r' where "socketEvent (p, r) ev = (p, r')"
      using socketEvent_settled [OF Cons.prems, of r ev] by (cases "socketEvent (p, r) ev") simp
    then show ?case using Cons by simp
  qed
  then show "waitForMetadata (ErrorEvent # rest) = Rejected SocketErrorEvent"
    "waitForMetadata (CloseEvent # rest) = Rejected SocketCloseEvent"
    by (simp_all add: waitForMetadata_def reject_def)
qed

text \<open>
  C3 does not hold of the code. When the first frame is a ping, or is not JSON, the
  promise of \<open>waitForMetadata\<close> is still pending, also after a metadata frame that
  follows; \<open>WebSocketHandler.create\<close> and \<open>startSession\<close> are pending with it, with
  the microphone and the socket open.
\<close>

theorem handshake_unexpected_first_frame_pending:
  "waitForMetadata [MessageEvent (Ping 1)] = Pending
   \<and> waitForMetadata [MessageEvent NotJson] = Pending
   \<and> waitForMetadata [MessageEvent (Ping 1),
                       MessageEvent (ConversationInitiationMetadata ''abc'' ''pcm_16000'')] = Pending
   \<and> snd (WebSocketHandler_create (socket env_ping_first)) = Pending
   \<and> startSession True env_ping_first
       = ([Call (OnStatusChange Connecting), Open AudioInput, Open WebSocket], Pending)"
  by (simp add: waitForMetadata_def env_ping_first_def WebSocketHandler_create_def
      startSession_def)

subsection \<open>The session hook\<close>

text \<open>
  C5 does not hold of the code. A first call of the hook's \<open>startSession\<close> starts a
  session and, once it is resolved, returns the session object 7. A second call, made
  while that session is in use, starts no other session, but does not return the
  object: it returns \<open>conversationRef.current.getId()\<close>, which throws. In the second
  version of the hook the call made while the session is pending ends the same way.
\<close>

theorem startSession_while_active_throws:
  "startSession_call newUseConversation
     = (\<lparr>conversationRef = None, pendingConversationRef = Some 0, sessionsStarted = 1\<rparr>,
        Awaiting AwaitNew)
   \<and> startSession_resume (fst (startSession_call newUseConversation)) AwaitNew (Inr 7)
     = (\<lparr>conversationRef = Some 7, pendingConversationRef = None, sessionsStarted = 1\<rparr>,
        Returns (SessionObject 7))
   \<and> startSession_call \<lparr>conversationRef = Some 7, pendingConversationRef = None, sessionsStarted = 1\<rparr>
     = (\<lparr>conversationRef = Some 7, pendingConversationRef = None, sessionsStarted = 1\<rparr>,
        Done (Throws (TypeError ''getId is not a function'')))
   \<and> Throws (TypeError ''getId is not a function'') \<noteq> Returns (SessionObject 7)
   \<and> snd (startSession_resume2
             \<lparr>conversationRef = None, pendingConversationRef = Some 0, sessionsStarted = 1\<rparr>
             AwaitPending (Inr 7))
     = Throws (TypeError ''getId is not a function'')"
  by (simp add: startSession_call_def newUseConversation_def getId_def)

text \<open>
  What holds: two calls made one after the other while no session is in use start one
  session; when it is resolved, the first version returns the same session object to
  both.
\<close>

lemma startSession_while_pending_coalesced:
  assumes "conversationRef h = None" "pendingConversationRef h = None"
    and "startSession_call h = (h1, c1)" "startSession_call h1 = (h2, c2)"
  shows "c1 = Awaiting AwaitNew" "c2 = Awaiting AwaitPending"
    "sessionsStarted h2 = Suc (sessionsStarted h)"
    "snd (startSession_resume h2 AwaitNew (Inr conversation)) = Returns (SessionObject conversation)"
    "snd (startSession_resume (fst (startSession_resume h2 AwaitNew (Inr conversation)))
            AwaitPending (Inr conversation)) = Returns (SessionObject conversation)"
  using assms by (auto simp add: startSession_call_def)

subsection \<open>The playback loop\<close>

text \<open>
  The audio callback does not touch the flag, so \<open>clearInterrupted\<close> empties the queue
  also when the worklet has gone on playing since \<open>interrupt\<close>.
\<close>

lemma processAudioOutput_isInterrupted:
  "isInterrupted (snd (snd (processAudioOutput n p))) = isInterrupted p"
proof (induction n arbitrary: p)
  case 0
  show ?case by simp
next
  case (Suc n)
  show ?case
    by (simp add: Suc Let_def case_prod_beta split: option.split list.split)
qed

lemma process_isInterrupted:
  "isInterrupted (snd (snd (process n p))) = isInterrupted p"
  using processAudioOutput_isInterrupted [of n p]
  by (simp add: process_def Let_def case_prod_beta)

lemma clearInterrupted_after_playback:
  "audioBuffers (handleClearInterruption (snd (snd (process n (handleInterruption_worklet p))))) = []"
  "currentAudioBuffer (handleClearInterruption (snd (snd (process n (handleInterruption_worklet p))))) = None"
  using process_isInterrupted [of n "handleInterruption_worklet p"]
  by (simp_all add: handleClearInterruption_def handleInterruption_worklet_def)

text \<open>
  Playing a queued chunk that is not empty writes \<open>pcm16ToFloat\<close> of each of its
  elements, in order: the conversion of the round trip is the one the loop applies.
\<close>

lemma processAudioOutput_current:
  assumes "currentAudioBuffer p = Some chunk" "currentPosition p = pos" "pos + n \<le> length chunk"
  shows "fst (processAudioOutput n p) = map (\<lambda>w. Some (pcm16ToFloat w)) (take n (drop pos chunk))"
  using assms
proof (induction n arbitrary: p pos)
  case 0
  show ?case by simp
next
  case (Suc n)
  have lt: "pos < length chunk" using Suc.prems by simp
  have hd: "take (Suc n) (drop pos chunk) = chunk ! pos # take n (drop (Suc pos) chunk)"
    using lt by (simp add: take_Suc_conv_app_nth Cons_nth_drop_Suc [symmetric])
  show ?case
  proof (cases "Suc pos \<ge> length chunk")
    case True
    then have n0: "n = 0" using Suc.prems by simp
    show ?thesis
      using Suc.prems lt True hd
      by (simp add: n0 Let_def sampleAt_def case_prod_beta)
  next
    case False
    let ?p = "p\<lparr>currentPosition := Suc pos\<rparr>"
    have "fst (processAudioOutput n ?p) = map (\<lambda>w. Some (pcm16ToFloat w)) (take n (drop (Suc pos) chunk))"
      using Suc.prems by (intro Suc.IH) simp_all
    then show ?thesis
      using Suc.prems lt False hd
      by (simp add: Let_def sampleAt_def case_prod_beta)
  qed
qed

lemma processAudioOutput_queued:
  assumes "currentAudioBuffer p = None" "audioBuffers p = chunk # rest" "chunk \<noteq> []"
  shows "fst (processAudioOutput (length chunk) p) = map (\<lambda>w. Some (pcm16ToFloat w)) chunk"
proof -
  obtain n where n: "length chunk = Suc n" using assms(3) by (cases chunk) simp_all
  let ?p = "p\<lparr>audioBuffers := rest, currentAudioBuffer := Some chunk, currentPosition := 0\<rparr>"
  obtain w ws where c: "chunk = w # ws" using assms(3) by (cases chunk) simp_all
  have "fst (processAudioOutput (length chunk) ?p) = map (\<lambda>w. Some (pcm16ToFloat w)) (take (length chunk) (drop 0 chunk))"
    by (rule processAudioOutput_current) simp_all
  moreover have "processAudioOutput (Suc n) p = processAudioOutput (Suc n) ?p"
    using assms by simp
  ultimately show ?thesis by (simp add: n)
qed

end
